theory Spec2Isabelle
  imports Main
begin

section \<open>Lineup records and their discovery description (models/lineup.go)\<close>

text \<open>
  A shallow embedding of \<^verbatim>\<open>models/lineup.go\<close>. Go structs are records that keep the
  field names of the source, Go's \<^verbatim>\<open>int\<close> is \<open>int\<close> (the file does no arithmetic on
  it), a Go string is a \<open>string\<close>, a slice is a list (the nil slice and the empty slice
  are both \<open>[]\<close>), a pointer that may be nil is an \<open>option\<close>, and a Go \<^verbatim>\<open>error\<close>
  result is an \<open>error option\<close> (\<open>None\<close> is the nil error).
\<close>

subsection \<open>Formatting verbs of fmt.Sprintf\<close>

definition digit :: "nat \<Rightarrow> char" where
  "digit n = ''0123456789'' ! n"

fun fmt_nat :: "nat \<Rightarrow> string" where
  "fmt_nat n = (if n < 10 then [digit n] else fmt_nat (n div 10) @ [digit (n mod 10)])"

declare fmt_nat.simps [simp del]

text \<open>The verb \<^verbatim>\<open>%d\<close> on an \<^verbatim>\<open>int\<close>: the decimal digits, after a minus sign when negative.\<close>

definition fmt_d :: "int \<Rightarrow> string" where
  "fmt_d i = (if i < 0 then CHR ''-'' # fmt_nat (nat (- i)) else fmt_nat (nat i))"

text \<open>
  Reading decimal notation, to say what a rendering denotes: the digit characters, the
  value of a digit, and the number that a string of digits stands for. These are not
  part of the program; the rendering above is characterised against them.
\<close>

definition is_digit :: "char \<Rightarrow> bool" where
  "is_digit c = (c \<in> set ''0123456789'')"

definition digit_value :: "char \<Rightarrow> nat" where
  "digit_value c = of_char c - 48"

definition decimal_value :: "string \<Rightarrow> nat" where
  "decimal_value ds = foldl (\<lambda>a c. 10 * a + digit_value c) 0 ds"

subsection \<open>DiscoveryData and its UPNP representation\<close>

record DiscoveryData =
  FriendlyName :: string
  Manufacturer :: string
  ModelName :: string
  ModelNumber :: string
  FirmwareName :: string
  TunerCount :: int
  FirmwareVersion :: string
  DeviceID :: string
  DeviceAuth :: string
  BaseURL :: string
  LineupURL :: string
  DeviceUUID :: string

text \<open>
  The types \<^verbatim>\<open>upnp.RootDevice\<close>, \<^verbatim>\<open>upnp.SpecVersion\<close>, \<^verbatim>\<open>upnp.Device\<close> and
  \<^verbatim>\<open>upnp.URLField\<close> belong to the imported package goupnp. The records below carry the
  fields that the composite literal of \<^verbatim>\<open>UPNP\<close> names; every other field of the
  library's types keeps its Go zero value and is left out.
\<close>

record SpecVersion =
  Major :: int
  Minor :: int

record URLField =
  Str :: string

record Device =
  DeviceType :: string
  FriendlyName :: string
  Manufacturer :: string
  ModelName :: string
  ModelNumber :: string
  ModelDescription :: string
  SerialNumber :: string
  UDN :: string
  PresentationURL :: URLField

record RootDevice =
  SpecVersion :: SpecVersion
  URLBaseStr :: string
  Device :: Device

text \<open>\<^verbatim>\<open>func (d *DiscoveryData) UPNP() upnp.RootDevice\<close>; the receiver is only read.\<close>

definition UPNP :: "DiscoveryData \<Rightarrow> RootDevice" where
  "UPNP d =
     \<lparr> SpecVersion = \<lparr> Major = 1, Minor = 0 \<rparr>,
       URLBaseStr = BaseURL d,
       Device =
         \<lparr> DeviceType = ''urn:schemas-upnp-org:device:MediaServer:1'',
           Device.FriendlyName = DiscoveryData.FriendlyName d,
           Device.Manufacturer = DiscoveryData.Manufacturer d,
           Device.ModelName = DiscoveryData.ModelName d,
           Device.ModelNumber = DiscoveryData.ModelNumber d,
           ModelDescription =
             DiscoveryData.ModelNumber d @ '' '' @ DiscoveryData.ModelName d,
           SerialNumber = DiscoveryData.DeviceID d,
           UDN = DiscoveryData.DeviceUUID d,
           PresentationURL = \<lparr> Str = ''/'' \<rparr> \<rparr> \<rparr>"

subsection \<open>SQLLineup\<close>

type_synonym timestamp = int

text \<open>
  The element type \<^verbatim>\<open>LineupChannel\<close> of the field \<^verbatim>\<open>Channels\<close> is declared in another
  file of the package; it is the type parameter \<open>'ch\<close>. \<^verbatim>\<open>CreatedAt\<close> is a
  \<^verbatim>\<open>*time.Time\<close>: \<open>None\<close> is the nil pointer.
\<close>

record 'ch SQLLineup =
  ID :: int
  Name :: string
  SSDP :: bool
  ListenAddress :: string
  DiscoveryAddress :: string
  Port :: int
  Tuners :: int
  Manufacturer :: string
  ModelName :: string
  ModelNumber :: string
  FirmwareName :: string
  FirmwareVersion :: string
  DeviceID :: string
  DeviceAuth :: string
  DeviceUUID :: string
  CreatedAt :: "timestamp option"
  Channels :: "'ch list"

text \<open>
  \<^verbatim>\<open>func (s *SQLLineup) GetDiscoveryData() DiscoveryData\<close>. The method has a pointer
  receiver, so the model returns the receiver as the call leaves it next to the
  descriptor; the body assigns to no field of \<^verbatim>\<open>s\<close>.
\<close>

definition GetDiscoveryData :: "'ch SQLLineup \<Rightarrow> DiscoveryData \<times> 'ch SQLLineup" where
  "GetDiscoveryData s =
     (let baseAddr = ''http://'' @ DiscoveryAddress s @ '':'' @ fmt_d (Port s)
      in (\<lparr> DiscoveryData.FriendlyName = Name s,
             DiscoveryData.Manufacturer = SQLLineup.Manufacturer s,
             DiscoveryData.ModelName = SQLLineup.ModelName s,
             DiscoveryData.ModelNumber = SQLLineup.ModelNumber s,
             DiscoveryData.FirmwareName = SQLLineup.FirmwareName s,
             TunerCount = Tuners s,
             DiscoveryData.FirmwareVersion = SQLLineup.FirmwareVersion s,
             DiscoveryData.DeviceID = SQLLineup.DeviceID s,
             DiscoveryData.DeviceAuth = SQLLineup.DeviceAuth s,
             BaseURL = baseAddr,
             LineupURL = baseAddr @ ''/lineup.json'',
             DiscoveryData.DeviceUUID = SQLLineup.DeviceUUID s \<rparr>,
          s))"

text \<open>
  The zero value \<^verbatim>\<open>time.Time{}\<close>, January 1 of year 1, 00:00:00 UTC, in seconds
  relative to the Unix epoch.
\<close>

definition zero_Time :: timestamp where
  "zero_Time = - 62135596800"

text \<open>The zero value \<^verbatim>\<open>SQLLineup{}\<close>.\<close>

definition zero_SQLLineup :: "'ch SQLLineup" where
  "zero_SQLLineup =
     \<lparr> ID = 0, Name = '''', SSDP = False, ListenAddress = '''', DiscoveryAddress = '''',
       Port = 0, Tuners = 0, SQLLineup.Manufacturer = '''', SQLLineup.ModelName = '''',
       SQLLineup.ModelNumber = '''', SQLLineup.FirmwareName = '''',
       SQLLineup.FirmwareVersion = '''', SQLLineup.DeviceID = '''',
       SQLLineup.DeviceAuth = '''', SQLLineup.DeviceUUID = '''', CreatedAt = None,
       Channels = [] \<rparr>"

section \<open>The lineup store\<close>

subsection \<open>Errors\<close>

text \<open>
  The values of Go's \<^verbatim>\<open>error\<close> that the model tells apart: \<^verbatim>\<open>sql.ErrNoRows\<close>, the
  database's rejection of a statement that names a column the table does not have, and
  any other failure of the driver or of the Channel store, with its message.
\<close>

datatype error = ErrNoRows | ErrNoSuchColumn string | ErrOther string

subsection \<open>The table lineup\<close>

text \<open>
  Modelled from the spec: the declaration of the table \<^verbatim>\<open>lineup\<close> (the schema migration)
  is not part of the source. The spec gives the persisted row layout: one row per
  lineup with the columns id (primary key), name, ssdp, listen_address,
  discovery_address, port, tuners, manufacturer, model_name, model_number,
  firmware_name, firmware_version, device_id, device_auth, device_uuid and created_at
  (a nullable timestamp). They are the columns that \<^verbatim>\<open>baseLineupQuery\<close> selects and the
  \<^verbatim>\<open>db\<close> tags of \<^verbatim>\<open>SQLLineup\<close>.
\<close>

record lineup_row =
  col_id :: int
  col_name :: string
  col_ssdp :: bool
  col_listen_address :: string
  col_discovery_address :: string
  col_port :: int
  col_tuners :: int
  col_manufacturer :: string
  col_model_name :: string
  col_model_number :: string
  col_firmware_name :: string
  col_firmware_version :: string
  col_device_id :: string
  col_device_auth :: string
  col_device_uuid :: string
  col_created_at :: "timestamp option"

text \<open>
  Modelled from the spec: the names of the table's columns, in the order of the
  persisted row layout (the table's declaration is missing from the source).
\<close>

definition lineup_columns :: "string list" where
  "lineup_columns =
     [''id'', ''name'', ''ssdp'', ''listen_address'', ''discovery_address'', ''port'',
      ''tuners'', ''manufacturer'', ''model_name'', ''model_number'', ''firmware_name'',
      ''firmware_version'', ''device_id'', ''device_auth'', ''device_uuid'', ''created_at'']"

text \<open>
  The database behind the handle \<^verbatim>\<open>*sqlx.DB\<close>: the rows of the table in storage order,
  the clock that stamps \<^verbatim>\<open>created_at\<close>, and a schedule of driver failures. Each call
  into the driver takes the head of the schedule; \<open>Some e\<close> makes that call fail with
  \<open>e\<close> and leave the table as it was, \<open>None\<close> or an empty schedule lets it run.
\<close>

record sqlDB =
  lineup_table :: "lineup_row list"
  clock :: timestamp
  faults :: "error option list"

definition next_fault :: "sqlDB \<Rightarrow> error option \<times> sqlDB" where
  "next_fault d = (case faults d of [] \<Rightarrow> (None, d) | f # fs \<Rightarrow> (f, d\<lparr>faults := fs\<rparr>))"

subsection \<open>The SQL statements of the source\<close>

text \<open>
  One constructor for each statement text that the source sends through \<^verbatim>\<open>Get\<close> or
  \<^verbatim>\<open>Select\<close>, with its positional arguments:
  \<^item> \<open>SelectBase\<close>: \<^verbatim>\<open>baseLineupQuery\<close>, that is \<^verbatim>\<open>SELECT L.id, ..., L.created_at FROM lineup L\<close>;
  \<^item> \<open>SelectBaseWhereID id\<close>: \<^verbatim>\<open>baseLineupQuery\<close> followed by \<^verbatim>\<open>WHERE L.id = $1\<close>;
  \<^item> \<open>SelectStarWhereID id\<close>: \<^verbatim>\<open>SELECT * FROM lineup WHERE id = $1\<close>;
  \<^item> \<open>DeleteWhereID id\<close>: \<^verbatim>\<open>DELETE FROM lineup WHERE id = $1\<close>;
  \<^item> \<open>UpdateDescription id v\<close>:
    \<^verbatim>\<open>UPDATE lineup SET description = $2 WHERE id = $1 RETURNING *\<close>.
\<close>

datatype statement =
    SelectBase
  | SelectBaseWhereID int
  | SelectStarWhereID int
  | DeleteWhereID int
  | UpdateDescription int string

text \<open>
  Running a statement on the table gives its result set, that is the names of the
  result columns and the rows, and the table afterwards, or the database's error. The
  selects have the sixteen columns of the table; the two selects by id return the rows
  whose id is the argument. \<^verbatim>\<open>DELETE\<close> removes them and, having no \<^verbatim>\<open>RETURNING\<close>
  clause, has a result set with no column and no row. \<^verbatim>\<open>UPDATE ... SET description\<close> is
  rejected unless the table has a column of that name; none of the sixteen columns of
  a row is assigned by it, and its \<^verbatim>\<open>RETURNING *\<close> gives the rows that matched.
\<close>

type_synonym result_set = "string list \<times> lineup_row list"

fun run_statement :: "statement \<Rightarrow> lineup_row list \<Rightarrow> error + (result_set \<times> lineup_row list)" where
  "run_statement SelectBase tbl = Inr ((lineup_columns, tbl), tbl)"
| "run_statement (SelectBaseWhereID i) tbl =
     Inr ((lineup_columns, filter (\<lambda>r. col_id r = i) tbl), tbl)"
| "run_statement (SelectStarWhereID i) tbl =
     Inr ((lineup_columns, filter (\<lambda>r. col_id r = i) tbl), tbl)"
| "run_statement (DeleteWhereID i) tbl = Inr (([], []), filter (\<lambda>r. col_id r \<noteq> i) tbl)"
| "run_statement (UpdateDescription i v) tbl =
     (if ''description'' \<in> set lineup_columns
      then Inr ((lineup_columns, filter (\<lambda>r. col_id r = i) tbl), tbl)
      else Inl (ErrNoSuchColumn ''description''))"

definition query :: "sqlDB \<Rightarrow> statement \<Rightarrow> (error + result_set) \<times> sqlDB" where
  "query d q =
     (case next_fault d of
        (Some e, d') \<Rightarrow> (Inl e, d')
      | (None, d') \<Rightarrow>
          (case run_statement q (lineup_table d') of
             Inl e \<Rightarrow> (Inl e, d')
           | Inr (res, tbl') \<Rightarrow> (Inr res, d'\<lparr>lineup_table := tbl'\<rparr>)))"

subsection \<open>sqlx: scanning rows into the struct\<close>

text \<open>A row is scanned into the fields that carry the columns' \<^verbatim>\<open>db\<close> tags; \<^verbatim>\<open>Channels\<close> has none.\<close>

definition scan_row :: "lineup_row \<Rightarrow> 'ch SQLLineup \<Rightarrow> 'ch SQLLineup" where
  "scan_row r dest =
     dest\<lparr> ID := col_id r, Name := col_name r, SSDP := col_ssdp r,
           ListenAddress := col_listen_address r,
           DiscoveryAddress := col_discovery_address r,
           Port := col_port r, Tuners := col_tuners r,
           SQLLineup.Manufacturer := col_manufacturer r,
           SQLLineup.ModelName := col_model_name r,
           SQLLineup.ModelNumber := col_model_number r,
           SQLLineup.FirmwareName := col_firmware_name r,
           SQLLineup.FirmwareVersion := col_firmware_version r,
           SQLLineup.DeviceID := col_device_id r,
           SQLLineup.DeviceAuth := col_device_auth r,
           SQLLineup.DeviceUUID := col_device_uuid r,
           CreatedAt := col_created_at r \<rparr>"

text \<open>
  Before it reads a row, sqlx looks up the destination field of every result column,
  and on the way it allocates each such field that is a nil pointer. \<^verbatim>\<open>CreatedAt\<close> is
  the only pointer field of \<^verbatim>\<open>SQLLineup\<close>: when the result set has the column
  \<^verbatim>\<open>created_at\<close> and \<^verbatim>\<open>CreatedAt\<close> is nil, it becomes a pointer to the zero time.
\<close>

definition alloc_fields :: "string list \<Rightarrow> 'ch SQLLineup \<Rightarrow> 'ch SQLLineup" where
  "alloc_fields cols dest =
     (if ''created_at'' \<in> set cols \<and> CreatedAt dest = None
      then dest\<lparr>CreatedAt := Some zero_Time\<rparr>
      else dest)"

text \<open>
  \<^verbatim>\<open>db.SQL.Get(&dest, query, args...)\<close>. When the statement fails, \<open>dest\<close> is left as it
  was and the error is the failure. Otherwise the fields of the result columns are
  looked up, and then the first row is scanned into \<open>dest\<close>; with no row the error is
  \<^verbatim>\<open>sql.ErrNoRows\<close> and \<open>dest\<close> keeps what the lookup allocated.
\<close>

definition Get :: "sqlDB \<Rightarrow> 'ch SQLLineup \<Rightarrow> statement \<Rightarrow> ('ch SQLLineup \<times> error option) \<times> sqlDB" where
  "Get d dest q =
     (case query d q of
        (Inl e, d') \<Rightarrow> ((dest, Some e), d')
      | (Inr (cols, rs), d') \<Rightarrow>
          (let dest' = alloc_fields cols dest
           in case rs of
                [] \<Rightarrow> ((dest', Some ErrNoRows), d')
              | r # _ \<Rightarrow> ((scan_row r dest', None), d')))"

text \<open>
  \<^verbatim>\<open>db.SQL.Select(&dest, query)\<close>: every row of the result set is scanned into a new
  element, after the same lookup of its fields, and appended, in order.
\<close>

definition Select :: "sqlDB \<Rightarrow> 'ch SQLLineup list \<Rightarrow> statement \<Rightarrow> ('ch SQLLineup list \<times> error option) \<times> sqlDB" where
  "Select d dest q =
     (case query d q of
        (Inl e, d') \<Rightarrow> ((dest, Some e), d')
      | (Inr (cols, rs), d') \<Rightarrow>
          ((dest @ map (\<lambda>r. scan_row r (alloc_fields cols zero_SQLLineup)) rs, None), d'))"

subsection \<open>The INSERT statement\<close>

text \<open>
  Modelled from the spec: the id that the store assigns to a new row (the declaration
  of the primary key is missing from the source; the spec says that the id is unique
  and assigned by the store on creation). It is 1 in an empty table and one more than
  the largest id in use otherwise, so it is the id of no other row.
\<close>

definition next_rowid :: "lineup_row list \<Rightarrow> int" where
  "next_rowid tbl = (case map col_id tbl of [] \<Rightarrow> 1 | i # is \<Rightarrow> fold max is i + 1)"

text \<open>
  The row that
  \<^verbatim>\<open>INSERT INTO lineup (name, ssdp, ..., device_uuid) VALUES (:name, :ssdp, ..., :device_uuid)\<close>
  writes: the fourteen named parameters are bound from the fields of the struct with
  those \<^verbatim>\<open>db\<close> tags. \<^verbatim>\<open>id\<close> and \<^verbatim>\<open>created_at\<close> are not in the column list; the store
  fills them in: the id as above and, modelled from the spec (the column's declaration
  is missing from the source), \<^verbatim>\<open>created_at\<close> with the time of the insert.
\<close>

definition inserted_row :: "sqlDB \<Rightarrow> 'ch SQLLineup \<Rightarrow> lineup_row" where
  "inserted_row d s =
     \<lparr> col_id = next_rowid (lineup_table d), col_name = Name s, col_ssdp = SSDP s,
       col_listen_address = ListenAddress s,
       col_discovery_address = DiscoveryAddress s,
       col_port = Port s, col_tuners = Tuners s,
       col_manufacturer = SQLLineup.Manufacturer s,
       col_model_name = SQLLineup.ModelName s,
       col_model_number = SQLLineup.ModelNumber s,
       col_firmware_name = SQLLineup.FirmwareName s,
       col_firmware_version = SQLLineup.FirmwareVersion s,
       col_device_id = SQLLineup.DeviceID s,
       col_device_auth = SQLLineup.DeviceAuth s,
       col_device_uuid = SQLLineup.DeviceUUID s,
       col_created_at = Some (clock d) \<rparr>"

text \<open>The \<^verbatim>\<open>sql.Result\<close> of an insert carries the id of the row it wrote.\<close>

datatype sql_result = Result int

definition NamedExec :: "sqlDB \<Rightarrow> 'ch SQLLineup \<Rightarrow> (error + sql_result) \<times> sqlDB" where
  "NamedExec d lineupStruct =
     (case next_fault d of
        (Some e, d') \<Rightarrow> (Inl e, d')
      | (None, d') \<Rightarrow>
          (let r = inserted_row d' lineupStruct
           in (Inr (Result (col_id r)), d'\<lparr>lineup_table := lineup_table d' @ [r]\<rparr>)))"

fun LastInsertId :: "sqlDB \<Rightarrow> sql_result \<Rightarrow> (error + int) \<times> sqlDB" where
  "LastInsertId d (Result i) =
     (case next_fault d of (Some e, d') \<Rightarrow> (Inl e, d') | (None, d') \<Rightarrow> (Inr i, d'))"

subsection \<open>The Channel store\<close>

text \<open>
  Modelled from the spec: the Channel store is another file of the package and is not
  part of the source. Its contract is
  \<^verbatim>\<open>GetChannelsForLineup(lineupID: int, activeOnly: bool) -> sequence of Channel | Error\<close>.
  The field \<open>channels_for\<close> holds its answers and \<open>calls\<close> records every invocation, in
  order, so that a statement can say whether and how the store was called.
\<close>

record 'ch LineupChannelAPI =
  channels_for :: "int \<Rightarrow> bool \<Rightarrow> error + 'ch list"
  calls :: "(int \<times> bool) list"

text \<open>
  Modelled from the spec: \<^verbatim>\<open>GetChannelsForLineup\<close> of the Channel store (missing from
  the source); it returns the store's answer for the arguments and records the call.
\<close>

definition GetChannelsForLineup ::
  "'ch LineupChannelAPI \<Rightarrow> int \<Rightarrow> bool \<Rightarrow> (error + 'ch list) \<times> 'ch LineupChannelAPI" where
  "GetChannelsForLineup c lineupID active =
     (channels_for c lineupID active, c\<lparr>calls := calls c @ [(lineupID, active)]\<rparr>)"

text \<open>\<^verbatim>\<open>APICollection\<close> holds the sibling stores; the source uses its \<^verbatim>\<open>LineupChannel\<close>.\<close>

record 'ch APICollection =
  LineupChannel :: "'ch LineupChannelAPI"

record 'ch LineupDB =
  SQL :: sqlDB
  Collection :: "'ch APICollection"

subsection \<open>The operations of LineupDB\<close>

text \<open>
  Each operation returns the pair of Go results and the store as the call leaves it.
  \<^verbatim>\<open>(*SQLLineup, error)\<close> is \<open>'ch SQLLineup option \<times> error option\<close>.
\<close>

definition InsertLineup ::
  "'ch LineupDB \<Rightarrow> 'ch SQLLineup \<Rightarrow> ('ch SQLLineup option \<times> error option) \<times> 'ch LineupDB" where
  "InsertLineup db lineupStruct =
     (let lineup = zero_SQLLineup
      in case NamedExec (SQL db) lineupStruct of
           (Inl err, s1) \<Rightarrow> ((Some lineup, Some err), db\<lparr>SQL := s1\<rparr>)
         | (Inr res, s1) \<Rightarrow>
             (case LastInsertId s1 res of
                (Inl rowIDErr, s2) \<Rightarrow> ((Some lineup, Some rowIDErr), db\<lparr>SQL := s2\<rparr>)
              | (Inr rowID, s2) \<Rightarrow>
                  (case Get s2 lineup (SelectStarWhereID rowID) of
                     ((lineup', err), s3) \<Rightarrow> ((Some lineup', err), db\<lparr>SQL := s3\<rparr>))))"

definition GetLineupByID ::
  "'ch LineupDB \<Rightarrow> int \<Rightarrow> bool \<Rightarrow> ('ch SQLLineup option \<times> error option) \<times> 'ch LineupDB" where
  "GetLineupByID db i withChannels =
     (case Get (SQL db) zero_SQLLineup (SelectBaseWhereID i) of
        ((lineup, err), s') \<Rightarrow>
          if withChannels then
            (case GetChannelsForLineup (LineupChannel (Collection db)) (ID lineup) True of
               (Inl channelsErr, c') \<Rightarrow>
                 ((None, Some channelsErr),
                  \<lparr>SQL = s', Collection = \<lparr>LineupChannel = c'\<rparr>\<rparr>)
             | (Inr channels, c') \<Rightarrow>
                 ((Some (lineup\<lparr>Channels := channels\<rparr>), err),
                  \<lparr>SQL = s', Collection = \<lparr>LineupChannel = c'\<rparr>\<rparr>))
          else ((Some lineup, err), db\<lparr>SQL := s'\<rparr>))"

definition DeleteLineup ::
  "'ch LineupDB \<Rightarrow> int \<Rightarrow> ('ch SQLLineup option \<times> error option) \<times> 'ch LineupDB" where
  "DeleteLineup db lineupID =
     (case Get (SQL db) zero_SQLLineup (DeleteWhereID lineupID) of
        ((lineup, err), s') \<Rightarrow> ((Some lineup, err), db\<lparr>SQL := s'\<rparr>))"

definition UpdateLineup ::
  "'ch LineupDB \<Rightarrow> int \<Rightarrow> string \<Rightarrow> ('ch SQLLineup option \<times> error option) \<times> 'ch LineupDB" where
  "UpdateLineup db lineupID description =
     (case Get (SQL db) zero_SQLLineup (UpdateDescription lineupID description) of
        ((lineup, err), s') \<Rightarrow> ((Some lineup, err), db\<lparr>SQL := s'\<rparr>))"

text \<open>
  The loop of \<^verbatim>\<open>GetEnabledLineups\<close> over the selected lineups: each one gets the channels
  of its id, and the first failing lookup ends the loop with its error.
\<close>

fun hydrate ::
  "'ch LineupChannelAPI \<Rightarrow> 'ch SQLLineup list \<Rightarrow> (error + 'ch SQLLineup list) \<times> 'ch LineupChannelAPI" where
  "hydrate c [] = (Inr [], c)"
| "hydrate c (lineup # rest) =
     (case GetChannelsForLineup c (ID lineup) True of
        (Inl channelsErr, c') \<Rightarrow> (Inl channelsErr, c')
      | (Inr channels, c') \<Rightarrow>
          (case hydrate c' rest of
             (Inl channelsErr, c'') \<Rightarrow> (Inl channelsErr, c'')
           | (Inr rest', c'') \<Rightarrow> (Inr (lineup\<lparr>Channels := channels\<rparr> # rest'), c'')))"

definition GetEnabledLineups ::
  "'ch LineupDB \<Rightarrow> bool \<Rightarrow> ('ch SQLLineup list \<times> error option) \<times> 'ch LineupDB" where
  "GetEnabledLineups db withChannels =
     (case Select (SQL db) [] SelectBase of
        ((lineups, err), s') \<Rightarrow>
          if withChannels then
            (case hydrate (LineupChannel (Collection db)) lineups of
               (Inl channelsErr, c') \<Rightarrow>
                 (([], Some channelsErr), \<lparr>SQL = s', Collection = \<lparr>LineupChannel = c'\<rparr>\<rparr>)
             | (Inr lineups', c') \<Rightarrow>
                 ((lineups', err), \<lparr>SQL = s', Collection = \<lparr>LineupChannel = c'\<rparr>\<rparr>))
          else ((lineups, err), db\<lparr>SQL := s'\<rparr>))"

text \<open>The invocations of the Channel store made between two states of the store.\<close>

definition new_calls :: "'ch LineupDB \<Rightarrow> 'ch LineupDB \<Rightarrow> (int \<times> bool) list" where
  "new_calls db db' =
     drop (length (calls (LineupChannel (Collection db)))) (calls (LineupChannel (Collection db')))"

subsection \<open>Example stores\<close>

text \<open>
  Concrete stores on which the operations are evaluated below. Channels are numbers
  here. The example Channel store answers two channels for lineup 1, one channel for
  lineup 0 and fails for every other lineup.
\<close>

definition ex_row :: "int \<Rightarrow> bool \<Rightarrow> lineup_row" where
  "ex_row i enabled =
     \<lparr> col_id = i, col_name = ''tv'', col_ssdp = enabled,
       col_listen_address = ''0.0.0.0'', col_discovery_address = ''10.0.0.5'',
       col_port = 6077, col_tuners = 2, col_manufacturer = ''Silicondust'',
       col_model_name = ''HDHomeRun'', col_model_number = ''HDTC-2US'',
       col_firmware_name = ''hdhomerun'', col_firmware_version = ''20150826'',
       col_device_id = ''12345678'', col_device_auth = ''telly'',
       col_device_uuid = ''uuid-1'', col_created_at = Some 500 \<rparr>"

definition ex_lineup :: "int \<Rightarrow> bool \<Rightarrow> timestamp \<Rightarrow> nat list \<Rightarrow> nat SQLLineup" where
  "ex_lineup i enabled t chs =
     \<lparr> ID = i, Name = ''tv'', SSDP = enabled,
       ListenAddress = ''0.0.0.0'', DiscoveryAddress = ''10.0.0.5'',
       Port = 6077, Tuners = 2, SQLLineup.Manufacturer = ''Silicondust'',
       SQLLineup.ModelName = ''HDHomeRun'', SQLLineup.ModelNumber = ''HDTC-2US'',
       SQLLineup.FirmwareName = ''hdhomerun'', SQLLineup.FirmwareVersion = ''20150826'',
       SQLLineup.DeviceID = ''12345678'', SQLLineup.DeviceAuth = ''telly'',
       SQLLineup.DeviceUUID = ''uuid-1'', CreatedAt = Some t, Channels = chs \<rparr>"

definition ex_channels :: "int \<Rightarrow> bool \<Rightarrow> error + nat list" where
  "ex_channels i active =
     (if i = 1 then Inr [10, 20]
      else if i = 0 then Inr [42]
      else Inl (ErrOther ''channel store failed''))"

definition ex_store :: "lineup_row list \<Rightarrow> nat LineupDB" where
  "ex_store tbl =
     \<lparr> SQL = \<lparr> lineup_table = tbl, clock = 1000, faults = [] \<rparr>,
       Collection = \<lparr> LineupChannel = \<lparr> channels_for = ex_channels, calls = [] \<rparr> \<rparr> \<rparr>"




section \<open>Properties of the discovery description\<close>

subsection \<open>The rendering of numbers\<close>

lemma digit_cases:
  "k < 10 \<Longrightarrow> k = 0 \<or> k = 1 \<or> k = 2 \<or> k = 3 \<or> k = 4
     \<or> k = 5 \<or> k = 6 \<or> k = 7 \<or> k = 8 \<or> k = (9::nat)"
  by arith

lemma digit_value_digit: "k < 10 \<Longrightarrow> digit_value (digit k) = k"
  by (drule digit_cases) (auto simp: digit_def digit_value_def)

lemma is_digit_digit: "k < 10 \<Longrightarrow> is_digit (digit k)"
  by (drule digit_cases) (auto simp: digit_def is_digit_def)

lemma digit_nonzero: "0 < k \<Longrightarrow> k < 10 \<Longrightarrow> digit k \<in> set ''123456789''"
  by (drule digit_cases) (auto simp: digit_def)

lemma decimal_value_snoc:
  "decimal_value (ds @ [c]) = 10 * decimal_value ds + digit_value c"
  by (simp add: decimal_value_def)

lemma fmt_nat_nonempty: "fmt_nat n \<noteq> []"
  by (subst fmt_nat.simps) simp

lemma decimal_value_fmt_nat: "decimal_value (fmt_nat n) = n"
proof (induction n rule: fmt_nat.induct)
  case (1 n)
  show ?case
  proof (cases "n < 10")
    case True
    then have "fmt_nat n = [digit n]" by (subst fmt_nat.simps) simp
    then show ?thesis using True by (simp add: decimal_value_def digit_value_digit)
  next
    case False
    then have "fmt_nat n = fmt_nat (n div 10) @ [digit (n mod 10)]"
      by (subst fmt_nat.simps) simp
    moreover have "decimal_value (fmt_nat (n div 10)) = n div 10" using "1" False by simp
    ultimately show ?thesis by (simp add: decimal_value_snoc digit_value_digit)
  qed
qed

lemma fmt_nat_digits: "list_all is_digit (fmt_nat n)"
proof (induction n rule: fmt_nat.induct)
  case (1 n)
  show ?case
  proof (cases "n < 10")
    case True
    then have "fmt_nat n = [digit n]" by (subst fmt_nat.simps) simp
    then show ?thesis using True by (simp add: is_digit_digit)
  next
    case False
    then have "fmt_nat n = fmt_nat (n div 10) @ [digit (n mod 10)]"
      by (subst fmt_nat.simps) simp
    moreover have "list_all is_digit (fmt_nat (n div 10))" using "1" False by simp
    ultimately show ?thesis by (simp add: is_digit_digit)
  qed
qed

lemma fmt_nat_leading: "fmt_nat n = ''0'' \<or> hd (fmt_nat n) \<in> set ''123456789''"
proof (induction n rule: fmt_nat.induct)
  case (1 n)
  show ?case
  proof (cases "n < 10")
    case True
    then have eq: "fmt_nat n = [digit n]" by (subst fmt_nat.simps) simp
    show ?thesis
    proof (cases "n = 0")
      case True
      with eq have "fmt_nat n = ''0''" by (simp add: digit_def)
      then show ?thesis by simp
    next
      case False
      with \<open>n < 10\<close> have "digit n \<in> set ''123456789''" by (intro digit_nonzero) simp_all
      then show ?thesis by (simp add: eq)
    qed
  next
    case False
    then have eq: "fmt_nat n = fmt_nat (n div 10) @ [digit (n mod 10)]"
      by (subst fmt_nat.simps) simp
    from False have nz: "n div 10 \<noteq> 0" by simp
    have z: "decimal_value ''0'' = 0" by (simp add: decimal_value_def digit_value_def)
    have "fmt_nat (n div 10) \<noteq> ''0''"
    proof
      assume "fmt_nat (n div 10) = ''0''"
      then have "decimal_value (fmt_nat (n div 10)) = 0" using z by simp
      then show False using nz by (simp add: decimal_value_fmt_nat)
    qed
    with "1" False have "hd (fmt_nat (n div 10)) \<in> set ''123456789''" by blast
    then show ?thesis by (simp add: eq fmt_nat_nonempty)
  qed
qed

lemma fmt_d_decimal:
  "\<exists>ds. fmt_d i = (if i < 0 then ''-'' else []) @ ds
        \<and> ds \<noteq> [] \<and> list_all is_digit ds
        \<and> (ds = ''0'' \<or> hd ds \<in> set ''123456789'')
        \<and> int (decimal_value ds) = \<bar>i\<bar>"
proof (cases "i < 0")
  case True
  have "fmt_d i = (if i < 0 then ''-'' else []) @ fmt_nat (nat (- i))"
    "int (decimal_value (fmt_nat (nat (- i)))) = \<bar>i\<bar>"
    using True by (simp_all add: fmt_d_def decimal_value_fmt_nat)
  with fmt_nat_nonempty fmt_nat_digits fmt_nat_leading show ?thesis by blast
next
  case False
  have "fmt_d i = (if i < 0 then ''-'' else []) @ fmt_nat (nat i)"
    "int (decimal_value (fmt_nat (nat i))) = \<bar>i\<bar>"
    using False by (simp_all add: fmt_d_def decimal_value_fmt_nat)
  with fmt_nat_nonempty fmt_nat_digits fmt_nat_leading show ?thesis by blast
qed

subsection \<open>The descriptor and the document\<close>

text \<open>
  C7. For every lineup the descriptor's \<^verbatim>\<open>BaseURL\<close> is \<^verbatim>\<open>http://\<close>, the discovery
  address, a colon and the port in decimal: a minus sign when the port is negative,
  then the digits, without a leading zero, of the number that is the port's absolute
  value. Its \<^verbatim>\<open>LineupURL\<close> is the \<^verbatim>\<open>BaseURL\<close> followed by \<^verbatim>\<open>/lineup.json\<close>. A lineup with
  discovery address \<^verbatim>\<open>10.0.0.5\<close> and port 6077 gives \<^verbatim>\<open>http://10.0.0.5:6077\<close> and
  \<^verbatim>\<open>http://10.0.0.5:6077/lineup.json\<close>.
\<close>

theorem GetDiscoveryData_urls:
  "(\<exists>ds. BaseURL (fst (GetDiscoveryData s))
            = ''http://'' @ DiscoveryAddress s @ '':'' @ (if Port s < 0 then ''-'' else []) @ ds
         \<and> ds \<noteq> [] \<and> list_all is_digit ds
         \<and> (ds = ''0'' \<or> hd ds \<in> set ''123456789'')
         \<and> int (decimal_value ds) = \<bar>Port s\<bar>)
   \<and> LineupURL (fst (GetDiscoveryData s)) = BaseURL (fst (GetDiscoveryData s)) @ ''/lineup.json''
   \<and> BaseURL (fst (GetDiscoveryData (s\<lparr>DiscoveryAddress := ''10.0.0.5'', Port := 6077\<rparr>)))
       = ''http://10.0.0.5:6077''
   \<and> LineupURL (fst (GetDiscoveryData (s\<lparr>DiscoveryAddress := ''10.0.0.5'', Port := 6077\<rparr>)))
       = ''http://10.0.0.5:6077/lineup.json''"
proof -
  from fmt_d_decimal [of "Port s"] obtain ds where
    ds: "fmt_d (Port s) = (if Port s < 0 then ''-'' else []) @ ds"
      "ds \<noteq> []" "list_all is_digit ds" "ds = ''0'' \<or> hd ds \<in> set ''123456789''"
      "int (decimal_value ds) = \<bar>Port s\<bar>"
    by blast
  have "BaseURL (fst (GetDiscoveryData s))
          = ''http://'' @ DiscoveryAddress s @ '':'' @ (if Port s < 0 then ''-'' else []) @ ds"
    by (simp add: GetDiscoveryData_def Let_def ds(1))
  with ds(2-5) have general: "\<exists>ds. BaseURL (fst (GetDiscoveryData s))
            = ''http://'' @ DiscoveryAddress s @ '':'' @ (if Port s < 0 then ''-'' else []) @ ds
         \<and> ds \<noteq> [] \<and> list_all is_digit ds
         \<and> (ds = ''0'' \<or> hd ds \<in> set ''123456789'')
         \<and> int (decimal_value ds) = \<bar>Port s\<bar>"
    by blast
  have rest: "LineupURL (fst (GetDiscoveryData s)) = BaseURL (fst (GetDiscoveryData s)) @ ''/lineup.json''
   \<and> BaseURL (fst (GetDiscoveryData (s\<lparr>DiscoveryAddress := ''10.0.0.5'', Port := 6077\<rparr>)))
       = ''http://10.0.0.5:6077''
   \<and> LineupURL (fst (GetDiscoveryData (s\<lparr>DiscoveryAddress := ''10.0.0.5'', Port := 6077\<rparr>)))
       = ''http://10.0.0.5:6077/lineup.json''"
    by (simp add: GetDiscoveryData_def Let_def fmt_d_def fmt_nat.simps digit_def)
  from general rest show ?thesis by blast
qed

text \<open>
  C8. The discovery document built from a descriptor has specification version 1.0,
  the constant device type, the model description "number, space, name", the
  presentation URL \<^verbatim>\<open>/\<close>, the serial number equal to the device id, the UDN equal to
  the device UUID, and the other fields copied from the descriptor. \<^verbatim>\<open>UPNP\<close> is a
  total function into \<open>RootDevice\<close>: it has no error result.
\<close>

theorem UPNP_document:
  "Major (SpecVersion (UPNP d)) = 1
   \<and> Minor (SpecVersion (UPNP d)) = 0
   \<and> DeviceType (Device (UPNP d)) = ''urn:schemas-upnp-org:device:MediaServer:1''
   \<and> ModelDescription (Device (UPNP d))
       = DiscoveryData.ModelNumber d @ '' '' @ DiscoveryData.ModelName d
   \<and> Str (PresentationURL (Device (UPNP d))) = ''/''
   \<and> SerialNumber (Device (UPNP d)) = DiscoveryData.DeviceID d
   \<and> UDN (Device (UPNP d)) = DiscoveryData.DeviceUUID d
   \<and> URLBaseStr (UPNP d) = BaseURL d
   \<and> Device.FriendlyName (Device (UPNP d)) = DiscoveryData.FriendlyName d
   \<and> Device.Manufacturer (Device (UPNP d)) = DiscoveryData.Manufacturer d
   \<and> Device.ModelName (Device (UPNP d)) = DiscoveryData.ModelName d
   \<and> Device.ModelNumber (Device (UPNP d)) = DiscoveryData.ModelNumber d"
  by (simp add: UPNP_def)

text \<open>
  C9. Deriving the descriptor leaves the lineup as it was, and deriving it again from
  the lineup the first call left behind gives the same descriptor.
\<close>

theorem GetDiscoveryData_pure:
  "snd (GetDiscoveryData s) = s
   \<and> fst (GetDiscoveryData (snd (GetDiscoveryData s))) = fst (GetDiscoveryData s)"
  by (simp add: GetDiscoveryData_def Let_def)

section \<open>Properties of the store\<close>

subsection \<open>The driver and the INSERT statement\<close>

lemma scan_row_alloc_fields [simp]: "scan_row r (alloc_fields cols dest) = scan_row r dest"
  by (simp add: scan_row_def alloc_fields_def)

lemma alloc_fields_Nil [simp]: "alloc_fields [] dest = dest"
  by (simp add: alloc_fields_def)


lemma next_fault_keeps: "next_fault d = (f, d') \<Longrightarrow> lineup_table d' = lineup_table d \<and> clock d' = clock d"
  by (auto simp: next_fault_def split: list.splits)

lemma fold_max_ge: "(x::int) \<in> set (i # is) \<Longrightarrow> x \<le> fold max is i"
proof -
  assume "x \<in> set (i # is)"
  then have "x \<le> Max (set (i # is))" by (intro Max_ge) auto
  then show ?thesis by (simp only: Max.set_eq_fold)
qed

lemma next_rowid_fresh: "r \<in> set tbl \<Longrightarrow> col_id r < next_rowid tbl"
proof (cases tbl)
  case Nil
  assume "r \<in> set tbl" with Nil show ?thesis by simp
next
  case (Cons a rest)
  assume "r \<in> set tbl"
  then have "col_id r \<in> set (col_id a # map col_id rest)" using Cons by auto
  then have "col_id r \<le> fold max (map col_id rest) (col_id a)" by (rule fold_max_ge)
  then show ?thesis using Cons by (simp add: next_rowid_def)
qed

lemma next_rowid_pos: "\<forall>r \<in> set tbl. 1 \<le> col_id r \<Longrightarrow> 1 \<le> next_rowid tbl"
proof (cases tbl)
  case Nil then show ?thesis by (simp add: next_rowid_def)
next
  case (Cons a rest)
  assume h: "\<forall>r \<in> set tbl. 1 \<le> col_id r"
  have "col_id a < next_rowid tbl" using Cons by (intro next_rowid_fresh) simp
  moreover have "1 \<le> col_id a" using h Cons by simp
  ultimately show ?thesis by simp
qed

lemma filter_fresh: "filter (\<lambda>r. col_id r = next_rowid tbl) tbl = []"
  by (auto simp: filter_empty_conv dest: next_rowid_fresh)

lemma inserted_row_cong:
  "lineup_table d' = lineup_table d \<Longrightarrow> clock d' = clock d \<Longrightarrow> inserted_row d' s = inserted_row d s"
  by (simp add: inserted_row_def)

lemma col_id_inserted_row [simp]: "col_id (inserted_row d s) = next_rowid (lineup_table d)"
  by (simp add: inserted_row_def)

lemma NamedExec_ok:
  "NamedExec d s = (Inr res, d1) \<Longrightarrow>
     res = Result (next_rowid (lineup_table d)) \<and>
     lineup_table d1 = lineup_table d @ [inserted_row d s] \<and> clock d1 = clock d"
  by (auto simp: NamedExec_def Let_def split: prod.splits option.splits
      dest!: next_fault_keeps intro: inserted_row_cong)

lemma LastInsertId_ok:
  "LastInsertId d res = (Inr i, d1) \<Longrightarrow> res = Result i \<and> lineup_table d1 = lineup_table d \<and> clock d1 = clock d"
  by (cases res) (auto split: prod.splits option.splits dest!: next_fault_keeps)

lemma Get_by_id_ok:
  "Get d dest (SelectStarWhereID i) = ((l, None), d1) \<Longrightarrow>
     lineup_table d1 = lineup_table d \<and>
     (\<exists>r rs. filter (\<lambda>r. col_id r = i) (lineup_table d) = r # rs \<and> l = scan_row r dest)"
  by (auto simp: Get_def query_def Let_def
      split: prod.splits option.splits sum.splits list.splits dest!: next_fault_keeps)

lemma InsertLineup_success:
  assumes "InsertLineup db inp = ((p, None), db')"
  shows "p = Some (scan_row (inserted_row (SQL db) inp) zero_SQLLineup) \<and>
         lineup_table (SQL db') = lineup_table (SQL db) @ [inserted_row (SQL db) inp]"
proof -
  from assms obtain res s1 rowID s2 l s3 where
    a: "NamedExec (SQL db) inp = (Inr res, s1)" and
    b: "LastInsertId s1 res = (Inr rowID, s2)" and
    c: "Get s2 (zero_SQLLineup :: 'a SQLLineup) (SelectStarWhereID rowID) = ((l, None), s3)" and
    d: "p = Some l" "db' = db\<lparr>SQL := s3\<rparr>"
    by (auto simp: InsertLineup_def Let_def split: prod.splits sum.splits)
  let ?r = "inserted_row (SQL db) inp"
  from NamedExec_ok [OF a] LastInsertId_ok [OF b]
  have e: "rowID = next_rowid (lineup_table (SQL db))"
    "lineup_table s2 = lineup_table (SQL db) @ [?r]" by auto
  have "filter (\<lambda>r. col_id r = rowID) (lineup_table s2) = [?r]"
    by (simp add: e filter_fresh)
  with Get_by_id_ok [OF c] have "l = scan_row ?r zero_SQLLineup" "lineup_table s3 = lineup_table s2"
    by auto
  with d e show ?thesis by simp
qed

lemma Get_by_id_found:
  "fst (next_fault d) = None \<Longrightarrow> filter (\<lambda>r. col_id r = i) (lineup_table d) = r # rs \<Longrightarrow>
     \<exists>d'. Get d dest (SelectBaseWhereID i) = ((scan_row r dest, None), d')"
proof -
  assume f: "fst (next_fault d) = None"
    and sel: "filter (\<lambda>r. col_id r = i) (lineup_table d) = r # rs"
  obtain d' where d': "next_fault d = (None, d')" using f by (cases "next_fault d") auto
  from next_fault_keeps [OF d'] have "lineup_table d' = lineup_table d" by simp
  then show ?thesis using sel by (simp add: Get_def query_def Let_def d')
qed

lemma InsertLineup_succeeds:
  "faults (SQL db) = [] \<Longrightarrow> \<exists>l db'. InsertLineup db lineupStruct = ((Some l, None), db')"
  by (simp add: InsertLineup_def NamedExec_def Get_def query_def next_fault_def Let_def
      filter_fresh)

text \<open>
  C4. When \<^verbatim>\<open>InsertLineup\<close> succeeds on a table whose ids are positive, the lineup it
  returns is the scan of the one stored row that carries its id (a re-read, not the
  argument); fetching by that id from the resulting table, when the driver does not
  fail, returns the same lineup; its fourteen caller-supplied fields are those of the
  argument; its id is positive and was the id of no earlier row; and \<^verbatim>\<open>CreatedAt\<close> is
  not nil.
\<close>

theorem InsertLineup_roundtrip:
  assumes ok: "InsertLineup db lineupStruct = ((p, None), db')"
      and ids: "\<forall>r \<in> set (lineup_table (SQL db)). 1 \<le> col_id r"
  shows "\<exists>l r. p = Some l
     \<and> filter (\<lambda>r. col_id r = ID l) (lineup_table (SQL db')) = [r]
     \<and> l = scan_row r zero_SQLLineup
     \<and> (\<forall>db''. lineup_table (SQL db'') = lineup_table (SQL db') \<longrightarrow>
            fst (next_fault (SQL db'')) = None \<longrightarrow>
            fst (GetLineupByID db'' (ID l) False) = (Some l, None))
     \<and> Name l = Name lineupStruct \<and> SSDP l = SSDP lineupStruct
     \<and> ListenAddress l = ListenAddress lineupStruct
     \<and> DiscoveryAddress l = DiscoveryAddress lineupStruct
     \<and> Port l = Port lineupStruct \<and> Tuners l = Tuners lineupStruct
     \<and> SQLLineup.Manufacturer l = SQLLineup.Manufacturer lineupStruct
     \<and> SQLLineup.ModelName l = SQLLineup.ModelName lineupStruct
     \<and> SQLLineup.ModelNumber l = SQLLineup.ModelNumber lineupStruct
     \<and> SQLLineup.FirmwareName l = SQLLineup.FirmwareName lineupStruct
     \<and> SQLLineup.FirmwareVersion l = SQLLineup.FirmwareVersion lineupStruct
     \<and> SQLLineup.DeviceID l = SQLLineup.DeviceID lineupStruct
     \<and> SQLLineup.DeviceAuth l = SQLLineup.DeviceAuth lineupStruct
     \<and> SQLLineup.DeviceUUID l = SQLLineup.DeviceUUID lineupStruct
     \<and> 1 \<le> ID l \<and> ID l \<notin> col_id ` set (lineup_table (SQL db))
     \<and> CreatedAt l \<noteq> None"
proof -
  let ?tbl = "lineup_table (SQL db)"
  let ?r = "inserted_row (SQL db) lineupStruct"
  let ?l = "scan_row ?r (zero_SQLLineup :: 'a SQLLineup)"
  from InsertLineup_success [OF ok]
  have p: "p = Some ?l" and tbl': "lineup_table (SQL db') = ?tbl @ [?r]" by auto
  have id: "ID ?l = next_rowid ?tbl" by (simp add: scan_row_def)
  have sel: "filter (\<lambda>r. col_id r = ID ?l) (lineup_table (SQL db')) = [?r]"
    by (simp add: id tbl' filter_fresh)
  have fetch: "fst (GetLineupByID db'' (ID ?l) False) = (Some ?l, None)"
    if "lineup_table (SQL db'') = lineup_table (SQL db')" "fst (next_fault (SQL db'')) = None"
    for db'' :: "'a LineupDB"
  proof -
    have "filter (\<lambda>r. col_id r = ID ?l) (lineup_table (SQL db'')) = ?r # []"
      using sel that(1) by simp
    from Get_by_id_found [OF that(2) this, of zero_SQLLineup]
    obtain d' where "Get (SQL db'') (zero_SQLLineup :: 'a SQLLineup) (SelectBaseWhereID (ID ?l))
        = ((scan_row ?r zero_SQLLineup, None), d')" by blast
    then show ?thesis by (simp add: GetLineupByID_def)
  qed
  have pos: "1 \<le> ID ?l" using next_rowid_pos [OF ids] by (simp add: id)
  have fresh: "ID ?l \<notin> col_id ` set ?tbl"
    by (auto simp: id dest: next_rowid_fresh)
  have fields: "Name ?l = Name lineupStruct \<and> SSDP ?l = SSDP lineupStruct
     \<and> ListenAddress ?l = ListenAddress lineupStruct
     \<and> DiscoveryAddress ?l = DiscoveryAddress lineupStruct
     \<and> Port ?l = Port lineupStruct \<and> Tuners ?l = Tuners lineupStruct
     \<and> SQLLineup.Manufacturer ?l = SQLLineup.Manufacturer lineupStruct
     \<and> SQLLineup.ModelName ?l = SQLLineup.ModelName lineupStruct
     \<and> SQLLineup.ModelNumber ?l = SQLLineup.ModelNumber lineupStruct
     \<and> SQLLineup.FirmwareName ?l = SQLLineup.FirmwareName lineupStruct
     \<and> SQLLineup.FirmwareVersion ?l = SQLLineup.FirmwareVersion lineupStruct
     \<and> SQLLineup.DeviceID ?l = SQLLineup.DeviceID lineupStruct
     \<and> SQLLineup.DeviceAuth ?l = SQLLineup.DeviceAuth lineupStruct
     \<and> SQLLineup.DeviceUUID ?l = SQLLineup.DeviceUUID lineupStruct
     \<and> CreatedAt ?l \<noteq> None"
    by (simp add: scan_row_def inserted_row_def)
  show ?thesis
    apply (rule exI [of _ ?l])
    apply (rule exI [of _ ?r])
    using p sel fetch pos fresh fields by blast
qed

text \<open>
  An insert into a table that holds lineup 1: the argument's own id 77, timestamp 3 and
  channels are not echoed; the result has id 2, the store's timestamp and no channels.
\<close>

theorem InsertLineup_roundtrip_witness:
  "InsertLineup (ex_store [ex_row 1 True]) (ex_lineup 77 False 3 [5])
     = ((Some (ex_lineup 2 False 1000 []), None), ex_store [ex_row 1 True, ex_row 2 False\<lparr>col_created_at := Some 1000\<rparr>])
   \<and> fst (GetLineupByID (ex_store [ex_row 1 True, ex_row 2 False\<lparr>col_created_at := Some 1000\<rparr>]) 2 False)
       = (Some (ex_lineup 2 False 1000 []), None)"
proof -
  have ok: "InsertLineup (ex_store [ex_row 1 True]) (ex_lineup 77 False 3 [5])
     = ((Some (ex_lineup 2 False 1000 []), None), ex_store [ex_row 1 True, ex_row 2 False\<lparr>col_created_at := Some 1000\<rparr>])"
    by (simp add: InsertLineup_def NamedExec_def Get_def query_def next_fault_def Let_def
        inserted_row_def next_rowid_def scan_row_def alloc_fields_def lineup_columns_def zero_SQLLineup_def
        ex_store_def ex_row_def ex_lineup_def)
  have ids: "\<forall>r \<in> set (lineup_table (SQL (ex_store [ex_row 1 True]))). 1 \<le> col_id r"
    by (simp add: ex_store_def ex_row_def)
  from InsertLineup_roundtrip [OF ok ids]
  have "\<forall>db''. lineup_table (SQL db'') = lineup_table (SQL (ex_store [ex_row 1 True, ex_row 2 False\<lparr>col_created_at := Some 1000\<rparr>])) \<longrightarrow>
            fst (next_fault (SQL db'')) = None \<longrightarrow>
            fst (GetLineupByID db'' (ID (ex_lineup 2 False 1000 [])) False) = (Some (ex_lineup 2 False 1000 []), None)"
    by auto
  then have "fst (GetLineupByID (ex_store [ex_row 1 True, ex_row 2 False\<lparr>col_created_at := Some 1000\<rparr>]) 2 False)
       = (Some (ex_lineup 2 False 1000 []), None)"
    by (simp add: ex_store_def ex_lineup_def next_fault_def)
  with ok show ?thesis by simp
qed

subsection \<open>Reading, updating and deleting\<close>

lemma GetEnabledLineups_selects_all:
  "fst (next_fault (SQL db)) = None \<Longrightarrow>
     fst (GetEnabledLineups db False)
       = (map (\<lambda>r. scan_row r zero_SQLLineup) (lineup_table (SQL db)), None)"
proof -
  assume f: "fst (next_fault (SQL db)) = None"
  obtain d' where d': "next_fault (SQL db) = (None, d')" using f by (cases "next_fault (SQL db)") auto
  from next_fault_keeps [OF d'] have "lineup_table d' = lineup_table (SQL db)" by simp
  then show ?thesis by (simp add: GetEnabledLineups_def Select_def query_def d')
qed

text \<open>
  C1. The property that \<^verbatim>\<open>GetEnabledLineups\<close> returns no lineup whose \<^verbatim>\<open>ssdp\<close> flag is false
  does not hold of the code: the query is \<^verbatim>\<open>baseLineupQuery\<close> with no \<^verbatim>\<open>WHERE\<close> clause. On a
  table whose only row has \<^verbatim>\<open>ssdp\<close> false the call succeeds and returns that lineup.
\<close>

theorem GetEnabledLineups_returns_disabled:
  "fst (GetEnabledLineups (ex_store [ex_row 1 False]) False) = ([ex_lineup 1 False 500 []], None)
   \<and> SSDP (ex_lineup 1 False 500 []) = False"
  by (simp add: GetEnabledLineups_def Select_def query_def next_fault_def
      scan_row_def alloc_fields_def lineup_columns_def zero_SQLLineup_def ex_store_def ex_row_def ex_lineup_def)

lemma UpdateLineup_never_succeeds:
  "\<exists>e. fst (UpdateLineup db lineupID description) = (Some zero_SQLLineup, Some e)"
  by (auto simp: UpdateLineup_def Get_def query_def Let_def lineup_columns_def
      split: prod.splits option.splits)

text \<open>
  C2. The property that an update returns the post-update state of the record does not hold
  of the code: \<^verbatim>\<open>UpdateLineup\<close> assigns the column \<^verbatim>\<open>description\<close>, which the table does not
  have. On a table that holds lineup 1 the call returns the zero lineup and an error,
  and the table is as before.
\<close>

theorem UpdateLineup_rejected:
  "UpdateLineup (ex_store [ex_row 1 True]) 1 ''den''
     = ((Some zero_SQLLineup, Some (ErrNoSuchColumn ''description'')), ex_store [ex_row 1 True])"
  by (simp add: UpdateLineup_def Get_def query_def Let_def next_fault_def lineup_columns_def
      ex_store_def)

lemma DeleteLineup_never_returns_record:
  "\<exists>e. fst (DeleteLineup db lineupID) = (Some zero_SQLLineup, Some e)"
  by (auto simp: DeleteLineup_def Get_def query_def Let_def split: prod.splits option.splits)

text \<open>
  C3. The property that deleting a stored id returns the record as it was before removal
  does not hold of the code: the \<^verbatim>\<open>DELETE\<close> has no \<^verbatim>\<open>RETURNING\<close> clause. Deleting lineup 1 from
  a table that holds it removes the row and returns the zero lineup with
  \<^verbatim>\<open>sql.ErrNoRows\<close>.
\<close>

theorem DeleteLineup_present:
  "DeleteLineup (ex_store [ex_row 1 True]) 1
     = ((Some zero_SQLLineup, Some ErrNoRows), ex_store [])"
  by (simp add: DeleteLineup_def Get_def query_def Let_def next_fault_def ex_store_def ex_row_def)


lemma GetLineupByID_without_channels:
  "Collection (snd (GetLineupByID db i False)) = Collection db"
  by (simp add: GetLineupByID_def split: prod.splits)

lemma GetLineupByID_with_channels:
  assumes "Get (SQL db) zero_SQLLineup (SelectBaseWhereID i) = ((lineup, err), s')"
  shows "new_calls db (snd (GetLineupByID db i True)) = [(ID lineup, True)]"
    and "channels_for (LineupChannel (Collection db)) (ID lineup) True = Inl e \<Longrightarrow>
           fst (GetLineupByID db i True) = (None, Some e)"
    and "channels_for (LineupChannel (Collection db)) (ID lineup) True = Inr cs \<Longrightarrow>
           fst (GetLineupByID db i True) = (Some (lineup\<lparr>Channels := cs\<rparr>), err)"
  using assms
  by (auto simp: GetLineupByID_def new_calls_def GetChannelsForLineup_def split: prod.splits sum.splits)

text \<open>
  C6. \<^verbatim>\<open>GetLineupByID\<close> without channels leaves the record of calls to the Channel
  store as it was; with channels it makes exactly one call, for active channels only,
  and a lineup it returns carries the very list the Channel store answered.
\<close>

theorem GetLineupByID_hydration_flag:
  "calls (LineupChannel (Collection (snd (GetLineupByID db i False))))
     = calls (LineupChannel (Collection db))
   \<and> (\<exists>lineupID. new_calls db (snd (GetLineupByID db i True)) = [(lineupID, True)]
        \<and> (\<forall>l. fst (fst (GetLineupByID db i True)) = Some l \<longrightarrow>
              channels_for (LineupChannel (Collection db)) lineupID True = Inr (Channels l)))"
proof -
  obtain lineup err s' where
    g: "Get (SQL db) (zero_SQLLineup :: 'a SQLLineup) (SelectBaseWhereID i) = ((lineup, err), s')"
    by (metis surj_pair)
  note w = GetLineupByID_with_channels [OF g]
  have "\<forall>l. fst (fst (GetLineupByID db i True)) = Some l \<longrightarrow>
          channels_for (LineupChannel (Collection db)) (ID lineup) True = Inr (Channels l)"
  proof (cases "channels_for (LineupChannel (Collection db)) (ID lineup) True")
    case (Inl e) with w(2) show ?thesis by simp
  next
    case (Inr cs) with w(3) show ?thesis by auto
  qed
  with w(1) show ?thesis by (auto simp: GetLineupByID_without_channels)
qed

text \<open>Fetching the stored lineup 1, whose channels are 10 and 20.\<close>

theorem GetLineupByID_hydration_flag_witness:
  "calls (LineupChannel (Collection (snd (GetLineupByID (ex_store [ex_row 1 True]) 1 False)))) = []
   \<and> new_calls (ex_store [ex_row 1 True]) (snd (GetLineupByID (ex_store [ex_row 1 True]) 1 True))
       = [(1, True)]
   \<and> fst (fst (GetLineupByID (ex_store [ex_row 1 True]) 1 True)) = Some (ex_lineup 1 True 500 [10, 20])
   \<and> ex_channels 1 True = Inr (Channels (ex_lineup 1 True 500 [10, 20]))"
  using GetLineupByID_hydration_flag [of "ex_store [ex_row 1 True]" 1]
  by (simp add: GetLineupByID_def Get_def query_def Let_def next_fault_def new_calls_def
      GetChannelsForLineup_def scan_row_def alloc_fields_def lineup_columns_def zero_SQLLineup_def
      ex_store_def ex_row_def ex_lineup_def ex_channels_def)

subsection \<open>Hydration\<close>

lemma hydrate_calls:
  "hydrate c ls = (res, c') \<Longrightarrow>
     channels_for c' = channels_for c \<and> (\<exists>new. calls c' = calls c @ new)"
proof (induction ls arbitrary: c res c')
  case Nil
  then show ?case by simp
next
  case (Cons l ls)
  show ?case
  proof (cases "channels_for c (ID l) True")
    case (Inl e)
    with Cons.prems show ?thesis by (auto simp: GetChannelsForLineup_def)
  next
    case (Inr cs)
    let ?c1 = "c\<lparr>calls := calls c @ [(ID l, True)]\<rparr>"
    obtain res1 c1' where h: "hydrate ?c1 ls = (res1, c1')" by (metis surj_pair)
    from Cons.IH [OF h] have "channels_for c1' = channels_for c"
      "\<exists>new. calls c1' = calls c @ [(ID l, True)] @ new" by auto
    moreover from Cons.prems Inr h have "c' = c1'"
      by (auto simp: GetChannelsForLineup_def split: sum.splits)
    ultimately show ?thesis by auto
  qed
qed

lemma hydrate_failed_call:
  "hydrate c ls = (res, c') \<Longrightarrow> (lineupID, active) \<in> set (drop (length (calls c)) (calls c')) \<Longrightarrow>
     channels_for c lineupID active = Inl e \<Longrightarrow> res = Inl e"
proof (induction ls arbitrary: c res c')
  case Nil
  then show ?case by simp
next
  case (Cons l ls)
  show ?case
  proof (cases "channels_for c (ID l) True")
    case (Inl e0)
    with Cons.prems show ?thesis by (auto simp: GetChannelsForLineup_def)
  next
    case (Inr cs)
    let ?c1 = "c\<lparr>calls := calls c @ [(ID l, True)]\<rparr>"
    obtain res1 c1' where h: "hydrate ?c1 ls = (res1, c1')" by (metis surj_pair)
    from Cons.prems(1) Inr h have c': "c' = c1'"
      and res: "res = (case res1 of Inl e \<Rightarrow> Inl e | Inr rest' \<Rightarrow> Inr (l\<lparr>Channels := cs\<rparr> # rest'))"
      by (auto simp: GetChannelsForLineup_def split: sum.splits)
    from hydrate_calls [OF h] obtain new where new: "calls c1' = calls c @ [(ID l, True)] @ new"
      by auto
    have "(lineupID, active) \<noteq> (ID l, True)" using Inr Cons.prems(3) by auto
    with Cons.prems(2) have "(lineupID, active) \<in> set new" by (auto simp: c' new)
    then have "(lineupID, active) \<in> set (drop (length (calls ?c1)) (calls c1'))"
      by (simp add: new)
    from Cons.IH [OF h this] Cons.prems(3) have "res1 = Inl e" by simp
    then show ?thesis by (simp add: res)
  qed
qed

lemma hydrate_complete:
  "hydrate c ls = (Inr ls', c') \<Longrightarrow> l' \<in> set ls' \<Longrightarrow>
     channels_for c (ID l') True = Inr (Channels l')"
proof (induction ls arbitrary: c ls' c')
  case Nil
  then show ?case by simp
next
  case (Cons l ls)
  show ?case
  proof (cases "channels_for c (ID l) True")
    case (Inl e0)
    with Cons.prems show ?thesis by (auto simp: GetChannelsForLineup_def)
  next
    case (Inr cs)
    let ?c1 = "c\<lparr>calls := calls c @ [(ID l, True)]\<rparr>"
    obtain res1 c1' where h: "hydrate ?c1 ls = (res1, c1')" by (metis surj_pair)
    from Cons.prems(1) Inr h obtain rest' where
      r: "res1 = Inr rest'" "ls' = l\<lparr>Channels := cs\<rparr> # rest'"
      by (auto simp: GetChannelsForLineup_def split: sum.splits)
    show ?thesis
    proof (cases "l' = l\<lparr>Channels := cs\<rparr>")
      case True
      then show ?thesis using Inr by simp
    next
      case False
      with Cons.prems(2) r have "l' \<in> set rest'" by simp
      from Cons.IH [OF h [unfolded r(1)] this] show ?thesis by simp
    qed
  qed
qed

lemma GetEnabledLineups_with_channels:
  assumes "hydrate (LineupChannel (Collection db))
             (fst (fst (Select (SQL db) [] SelectBase))) = (res, c')"
  shows "new_calls db (snd (GetEnabledLineups db True))
           = drop (length (calls (LineupChannel (Collection db)))) (calls c')"
    and "res = Inl e \<Longrightarrow> fst (GetEnabledLineups db True) = ([], Some e)"
    and "res = Inr ls' \<Longrightarrow> fst (fst (GetEnabledLineups db True)) = ls'"
  using assms
  by (auto simp: GetEnabledLineups_def new_calls_def split: prod.splits sum.splits)

text \<open>
  C5. With channels requested, if a lookup that \<^verbatim>\<open>GetLineupByID\<close> or
  \<^verbatim>\<open>GetEnabledLineups\<close> made against the Channel store failed, the call returns that
  error and no lineup (the nil pointer, the nil slice); and every lineup that either
  call does return carries the Channel store's answer for its id.
\<close>

theorem hydration_failure_aborts:
  "(\<forall>lineupID active e.
       (lineupID, active) \<in> set (new_calls db (snd (GetLineupByID db i True))) \<longrightarrow>
       channels_for (LineupChannel (Collection db)) lineupID active = Inl e \<longrightarrow>
       fst (GetLineupByID db i True) = (None, Some e))
   \<and> (\<forall>lineupID active e.
       (lineupID, active) \<in> set (new_calls db (snd (GetEnabledLineups db True))) \<longrightarrow>
       channels_for (LineupChannel (Collection db)) lineupID active = Inl e \<longrightarrow>
       fst (GetEnabledLineups db True) = ([], Some e))
   \<and> (\<forall>l. fst (fst (GetLineupByID db i True)) = Some l \<longrightarrow>
       channels_for (LineupChannel (Collection db)) (ID l) True = Inr (Channels l))
   \<and> (\<forall>l \<in> set (fst (fst (GetEnabledLineups db True))).
       channels_for (LineupChannel (Collection db)) (ID l) True = Inr (Channels l))"
proof -
  let ?c = "LineupChannel (Collection db)"
  obtain lineup err s' where
    g: "Get (SQL db) (zero_SQLLineup :: 'a SQLLineup) (SelectBaseWhereID i) = ((lineup, err), s')"
    by (metis surj_pair)
  note w = GetLineupByID_with_channels [OF g]
  have one: "fst (GetLineupByID db i True) = (None, Some e)"
    if "(lineupID, active) \<in> set (new_calls db (snd (GetLineupByID db i True)))"
      "channels_for ?c lineupID active = Inl e" for lineupID active e
    using that w(1) w(2) by simp
  have one_ok: "channels_for ?c (ID l) True = Inr (Channels l)"
    if "fst (fst (GetLineupByID db i True)) = Some l" for l
  proof (cases "channels_for ?c (ID lineup) True")
    case (Inl e) with w(2) that show ?thesis by simp
  next
    case (Inr cs) with w(3) that show ?thesis by auto
  qed
  obtain res c' where
    h: "hydrate ?c (fst (fst (Select (SQL db) [] SelectBase))) = (res, c')"
    by (metis surj_pair)
  note v = GetEnabledLineups_with_channels [OF h]
  have all: "fst (GetEnabledLineups db True) = ([], Some e)"
    if "(lineupID, active) \<in> set (new_calls db (snd (GetEnabledLineups db True)))"
      "channels_for ?c lineupID active = Inl e" for lineupID active e
  proof -
    from that(1) have "(lineupID, active) \<in> set (drop (length (calls ?c)) (calls c'))"
      by (simp add: v(1))
    from hydrate_failed_call [OF h this that(2)] show ?thesis by (rule v(2))
  qed
  have all_ok: "channels_for ?c (ID l) True = Inr (Channels l)"
    if "l \<in> set (fst (fst (GetEnabledLineups db True)))" for l
  proof (cases res)
    case (Inl e)
    with v(2) that show ?thesis by simp
  next
    case (Inr ls')
    with v(3) that have "l \<in> set ls'" by simp
    from hydrate_complete [OF h [unfolded Inr] this] show ?thesis .
  qed
  from one one_ok all all_ok show ?thesis by blast
qed

text \<open>The Channel store fails for lineup 2 and answers for lineup 1.\<close>

theorem hydration_failure_aborts_witness:
  "(2, True) \<in> set (new_calls (ex_store [ex_row 1 True, ex_row 2 True])
                      (snd (GetLineupByID (ex_store [ex_row 1 True, ex_row 2 True]) 2 True)))
   \<and> ex_channels 2 True = Inl (ErrOther ''channel store failed'')
   \<and> fst (GetLineupByID (ex_store [ex_row 1 True, ex_row 2 True]) 2 True)
       = (None, Some (ErrOther ''channel store failed''))
   \<and> (2, True) \<in> set (new_calls (ex_store [ex_row 1 True, ex_row 2 True])
                      (snd (GetEnabledLineups (ex_store [ex_row 1 True, ex_row 2 True]) True)))
   \<and> fst (GetEnabledLineups (ex_store [ex_row 1 True, ex_row 2 True]) True)
       = ([], Some (ErrOther ''channel store failed''))
   \<and> fst (GetLineupByID (ex_store [ex_row 1 True, ex_row 2 True]) 1 True)
       = (Some (ex_lineup 1 True 500 [10, 20]), None)
   \<and> fst (GetEnabledLineups (ex_store [ex_row 1 True]) True)
       = ([ex_lineup 1 True 500 [10, 20]], None)"
proof -
  let ?st = "ex_store [ex_row 1 True, ex_row 2 True]"
  have c: "channels_for (LineupChannel (Collection ?st)) = ex_channels"
    by (simp add: ex_store_def)
  have a: "(2, True) \<in> set (new_calls ?st (snd (GetLineupByID ?st 2 True)))"
    by (simp add: GetLineupByID_def Get_def query_def Let_def next_fault_def new_calls_def
        GetChannelsForLineup_def scan_row_def alloc_fields_def lineup_columns_def zero_SQLLineup_def
        ex_store_def ex_row_def ex_channels_def)
  have b: "(2, True) \<in> set (new_calls ?st (snd (GetEnabledLineups ?st True)))"
    by (simp add: GetEnabledLineups_def Select_def query_def next_fault_def new_calls_def
        GetChannelsForLineup_def scan_row_def alloc_fields_def lineup_columns_def zero_SQLLineup_def
        ex_store_def ex_row_def ex_channels_def)
  have e: "ex_channels 2 True = Inl (ErrOther ''channel store failed'')"
    by (simp add: ex_channels_def)
  have ok1: "fst (GetLineupByID ?st 1 True) = (Some (ex_lineup 1 True 500 [10, 20]), None)"
    by (simp add: GetLineupByID_def Get_def query_def Let_def next_fault_def
        GetChannelsForLineup_def scan_row_def alloc_fields_def lineup_columns_def zero_SQLLineup_def
        ex_store_def ex_row_def ex_lineup_def ex_channels_def)
  have ok2: "fst (GetEnabledLineups (ex_store [ex_row 1 True]) True)
       = ([ex_lineup 1 True 500 [10, 20]], None)"
    by (simp add: GetEnabledLineups_def Select_def query_def next_fault_def
        GetChannelsForLineup_def scan_row_def alloc_fields_def lineup_columns_def zero_SQLLineup_def
        ex_store_def ex_row_def ex_lineup_def ex_channels_def)
  from hydration_failure_aborts [of ?st 2] a b e c ok1 ok2 show ?thesis by simp
qed




end
